theory Spec2Isabelle
  imports Main
begin

section \<open>The reconnect helper of \<open>dbs/pgsql_reconnect_helper.py\<close>\<close>

text \<open>
  The module defines the mixin \<open>BaseRenew\<close> and the two handles built on it,
  \<open>RenewCursor(_base_cursor, BaseRenew)\<close> and \<open>RetryConnection(_base_connection, BaseRenew)\<close>.
  Objects live in a store indexed by references, since a cursor, its successor and the
  caller share connections. Every operation returns either \<open>Returned\<close> with its value or
  \<open>Raised\<close> with the exception, both with the store reached at that point. Calls that can
  recurse along a chain of successors take the remaining call depth as their first
  argument: running out of it is Python's \<open>RecursionError\<close>.
\<close>

subsection \<open>Classes, method resolution order, class bodies\<close>

datatype pyclass = RenewCursor | RetryConnection | BaseRenew | BaseCursor | BaseConnection | Object

text \<open>
  The linearisation of the class statements at lines 15, 143 and 206 of the source:
  the driver's base class stands before \<open>BaseRenew\<close> in both handles.
\<close>

fun mro :: "pyclass \<Rightarrow> pyclass list" where
  "mro RenewCursor = [RenewCursor, BaseCursor, BaseRenew, Object]"
| "mro RetryConnection = [RetryConnection, BaseConnection, BaseRenew, Object]"
| "mro BaseRenew = [BaseRenew, Object]"
| "mro BaseCursor = [BaseCursor, Object]"
| "mro BaseConnection = [BaseConnection, Object]"
| "mro Object = [Object]"

definition issubclass :: "pyclass \<Rightarrow> pyclass \<Rightarrow> bool" where
  "issubclass c b = (b \<in> set (mro c))"

text \<open>
  The names each class body binds. The three classes of the module are read off the
  source (\<open>__execute\<close> and \<open>__cursor\<close> under their mangled names).

  Modelled from the spec: the members of the driver's cursor and connection classes
  \<open>_base_cursor\<close> and \<open>_base_connection\<close>, which are imported from psycopg2 and are not
  part of the repository. Section 6 of the spec gives a connection \<open>closed\<close>,
  \<open>cursor\<close> and \<open>close\<close>, and a cursor \<open>closed\<close>, \<open>connection\<close>, \<open>execute\<close>,
  \<open>fetchone\<close>, \<open>fetchall\<close> and \<open>close\<close>; line 225 of the source reads
  \<open>cursor_factory\<close> from the connection.
\<close>

fun class_dict :: "pyclass \<Rightarrow> string list" where
  "class_dict RenewCursor = [''__fix_attrs__'', ''__init__'', ''execute'', ''_RenewCursor__execute'']"
| "class_dict RetryConnection = [''__fix_attrs__'', ''__init__'', ''cursor'', ''_RetryConnection__cursor'']"
| "class_dict BaseRenew =
     [''__fix_attrs__'', ''_sub_obj'', ''_args'', ''_kwargs'', ''__init__'', ''args'', ''kwargs'',
      ''sub'', ''__getattribute__'', ''solve_conn_curs'', ''close'']"
| "class_dict BaseCursor =
     [''__init__'', ''closed'', ''connection'', ''execute'', ''fetchone'', ''fetchall'', ''close'']"
| "class_dict BaseConnection = [''__init__'', ''closed'', ''cursor_factory'', ''cursor'', ''close'']"
| "class_dict Object = [''__init__'', ''__getattribute__'']"

text \<open>Attribute lookup on the type: the first class of the linearisation that binds the name.\<close>

definition resolve :: "pyclass \<Rightarrow> string \<Rightarrow> pyclass option" where
  "resolve c name = find (\<lambda>k. name \<in> set (class_dict k)) (mro c)"

text \<open>
  \<open>super(after, self).name\<close> for an instance of class \<open>c\<close>: the lookup starts behind
  \<open>after\<close> in the linearisation of \<open>c\<close>.
\<close>

definition super_resolve :: "pyclass \<Rightarrow> pyclass \<Rightarrow> string \<Rightarrow> pyclass option" where
  "super_resolve c after name =
     find (\<lambda>k. name \<in> set (class_dict k)) (drop 1 (dropWhile (\<lambda>k. k \<noteq> after) (mro c)))"

text \<open>The class attribute \<open>__fix_attrs__\<close> of each class body (lines 28, 150 and 208).\<close>

fun class_fix_attrs :: "pyclass \<Rightarrow> string list" where
  "class_fix_attrs RenewCursor = [''closed'', ''connection'', ''fetchall'', ''fetchone'', ''fetchall'']"
| "class_fix_attrs RetryConnection = [''closed'', ''connection'']"
| "class_fix_attrs c = []"

definition fix_attrs :: "pyclass \<Rightarrow> string list" where
  "fix_attrs c = (case resolve c ''__fix_attrs__'' of Some k \<Rightarrow> class_fix_attrs k | None \<Rightarrow> [])"

subsection \<open>Values, exceptions, objects and the store\<close>

type_synonym ref = nat

datatype pyvalue =
    VNone
  | VBool bool
  | VStr string
  | VRef ref
  | VClass pyclass
  | VMethod pyclass string ref
  | VTuple "pyvalue list"
  | VDict "(string \<times> pyvalue) list"

type_synonym pyargs = "pyvalue list"
type_synonym pykwargs = "(string \<times> pyvalue) list"

text \<open>
  \<open>InterfaceError\<close> is the driver's class caught at line 174; \<open>DriverError\<close> stands for
  every other exception class of the driver, with the class name and the message.
\<close>

datatype exc =
    NameError string
  | AttributeError string
  | TypeError string
  | RecursionError
  | InterfaceError string
  | DriverError string string

text \<open>
  An object: its class, the driver's members (\<open>closed\<close>, and \<open>connection\<close> of a cursor,
  \<open>cursor_factory\<close> of a connection) and the instance attributes the mixin writes:
  \<open>_sub_obj\<close>, \<open>_args\<close> and \<open>_kwargs\<close>, where \<open>None\<close> means the instance has none of its
  own, so that the class attribute of lines 29 to 31 is read.
\<close>

record pyobj =
  cls :: pyclass
  d_closed :: bool
  d_connection :: ref
  d_cursor_factory :: pyvalue
  sub_obj :: "ref option"
  inst_args :: "pyargs option"
  inst_kwargs :: "pykwargs option"

text \<open>The calls that reach the driver, in the order they happen.\<close>

datatype event =
    EvConnect pyclass pyargs pykwargs ref
  | EvCursor ref pyargs pykwargs ref
  | EvExecute ref pyargs pykwargs
  | EvClose ref

record state =
  objs :: "ref \<Rightarrow> pyobj"
  next_ref :: ref
  trace :: "event list"

datatype 'a outcome = Raised exc state | Returned 'a state

definition bind :: "'a outcome \<Rightarrow> ('a \<Rightarrow> state \<Rightarrow> 'b outcome) \<Rightarrow> 'b outcome" where
  "bind m k = (case m of Raised e s \<Rightarrow> Raised e s | Returned x s \<Rightarrow> k x s)"

definition lift :: "state \<Rightarrow> exc + 'a \<Rightarrow> 'a outcome" where
  "lift s r = (case r of Inl e \<Rightarrow> Raised e s | Inr x \<Rightarrow> Returned x s)"

text \<open>Truth value of a value in a condition: \<open>None\<close>, \<open>False\<close> and empty containers are false.\<close>

fun truthy :: "pyvalue \<Rightarrow> bool" where
  "truthy VNone = False"
| "truthy (VBool b) = b"
| "truthy (VStr t) = (t \<noteq> [])"
| "truthy (VTuple vs) = (vs \<noteq> [])"
| "truthy (VDict kvs) = (kvs \<noteq> [])"
| "truthy v = True"

subsection \<open>Reading attributes\<close>

text \<open>
  The value a class member gives for an instance: the driver's members, the properties
  \<open>args\<close>, \<open>kwargs\<close> and \<open>sub\<close> of \<open>BaseRenew\<close> (lines 37 to 96, each reading the
  underscore attribute of the instance itself, \<open>sub\<close> with \<open>or None\<close>), the class
  attributes, and methods as bound methods.
\<close>

definition class_member :: "pyclass \<Rightarrow> string \<Rightarrow> pyobj \<Rightarrow> ref \<Rightarrow> pyvalue" where
  "class_member k name ob r =
     (if name = ''closed'' then VBool (d_closed ob)
      else if name = ''connection'' then VRef (d_connection ob)
      else if name = ''cursor_factory'' then d_cursor_factory ob
      else if name = ''sub'' \<or> name = ''_sub_obj'' then
        (case sub_obj ob of None \<Rightarrow> VNone | Some r' \<Rightarrow> VRef r')
      else if name = ''args'' \<or> name = ''_args'' then
        VTuple (case inst_args ob of None \<Rightarrow> [] | Some a \<Rightarrow> a)
      else if name = ''kwargs'' \<or> name = ''_kwargs'' then
        VDict (case inst_kwargs ob of None \<Rightarrow> [] | Some kw \<Rightarrow> kw)
      else if name = ''__fix_attrs__'' then VTuple (map VStr (class_fix_attrs k))
      else VMethod k name r)"

text \<open>
  \<open>object.__getattribute__\<close>: the member found on the type, else \<open>AttributeError\<close>.
  The instance attributes of this module are the three underscore attributes, which
  \<open>class_member\<close> reads behind the class attributes of \<open>BaseRenew\<close>; an object of
  another class holds none.
\<close>

definition object_getattribute :: "state \<Rightarrow> ref \<Rightarrow> string \<Rightarrow> exc + pyvalue" where
  "object_getattribute s r name =
     (let ob = objs s r in
      case resolve (cls ob) name of
        Some k \<Rightarrow> Inr (class_member k name ob r)
      | None \<Rightarrow> Inl (AttributeError name))"

text \<open>
  \<open>getattr(obj, key)\<close> and \<open>BaseRenew.__getattribute__\<close> (lines 98 to 112). A class
  with \<open>BaseRenew\<close> among its bases finds \<open>__getattribute__\<close> there; a key of
  \<open>__fix_attrs__\<close> is read from \<open>self.sub\<close> when that is set, by \<open>getattr\<close> again, and
  everything else by \<open>object.__getattribute__\<close>.
\<close>

fun py_getattr :: "nat \<Rightarrow> state \<Rightarrow> ref \<Rightarrow> string \<Rightarrow> exc + pyvalue"
and BaseRenew_getattribute :: "nat \<Rightarrow> state \<Rightarrow> ref \<Rightarrow> string \<Rightarrow> exc + pyvalue" where
  "py_getattr 0 s r key = Inl RecursionError"
| "py_getattr (Suc d) s r key =
     (if resolve (cls (objs s r)) ''__getattribute__'' = Some BaseRenew
      then BaseRenew_getattribute d s r key
      else object_getattribute s r key)"
| "BaseRenew_getattribute 0 s self key = Inl RecursionError"
| "BaseRenew_getattribute (Suc d) s self key =
     (if key \<in> set (fix_attrs (cls (objs s self))) then
        (case sub_obj (objs s self) of
           Some r \<Rightarrow> py_getattr d s r key
         | None \<Rightarrow> object_getattribute s self key)
      else object_getattribute s self key)"

text \<open>The attribute of a value that need not be an object (\<open>None\<close> has none of ours).\<close>

definition getattr_value :: "nat \<Rightarrow> state \<Rightarrow> pyvalue \<Rightarrow> string \<Rightarrow> exc + pyvalue" where
  "getattr_value d s v key =
     (case v of VRef r \<Rightarrow> py_getattr d s r key | _ \<Rightarrow> Inl (AttributeError key))"

definition as_ref :: "state \<Rightarrow> pyvalue \<Rightarrow> ref outcome" where
  "as_ref s v = (case v of VRef r \<Rightarrow> Returned r s | _ \<Rightarrow> Raised (TypeError ''not an object'') s)"

text \<open>\<open>obj.name\<close> about to be called: the class whose function it is and the object bound.\<close>

definition get_method :: "nat \<Rightarrow> state \<Rightarrow> ref \<Rightarrow> string \<Rightarrow> (pyclass \<times> ref) outcome" where
  "get_method d s r name =
     (case py_getattr d s r name of
        Inl e \<Rightarrow> Raised e s
      | Inr (VMethod k n r') \<Rightarrow> Returned (k, r') s
      | Inr _ \<Rightarrow> Raised (TypeError ''object is not callable'') s)"

text \<open>\<open>*obj.args, **obj.kwargs\<close>: both attributes read and unpacked.\<close>

definition read_spec :: "nat \<Rightarrow> state \<Rightarrow> ref \<Rightarrow> (pyargs \<times> pykwargs) outcome" where
  "read_spec d s r =
     (case py_getattr d s r ''args'' of
        Inl e \<Rightarrow> Raised e s
      | Inr (VTuple a) \<Rightarrow>
          (case py_getattr d s r ''kwargs'' of
             Inl e \<Rightarrow> Raised e s
           | Inr (VDict kw) \<Rightarrow> Returned (a, kw) s
           | Inr _ \<Rightarrow> Raised (TypeError ''argument after ** must be a mapping'') s)
      | Inr _ \<Rightarrow> Raised (TypeError ''argument after * must be an iterable'') s)"

subsection \<open>Writing attributes\<close>

definition update_obj :: "state \<Rightarrow> ref \<Rightarrow> (pyobj \<Rightarrow> pyobj) \<Rightarrow> state" where
  "update_obj s r f = s\<lparr>objs := (objs s)(r := f (objs s r))\<rparr>"

text \<open>
  \<open>obj.args = a\<close> and \<open>obj.kwargs = kw\<close>. Where the class of the object finds the
  property of \<open>BaseRenew\<close>, the setter of lines 47 to 55 or 67 to 75 runs: \<open>setattr\<close>
  of the underscore attribute on the instance. An object of another class, the driver's
  own cursor or connection or a plain object, has no such property and, being an
  instance of a built-in or extension type, no dictionary of its own to take the
  attribute: the
  assignment raises \<open>AttributeError\<close>. \<open>self.sub = obj\<close> is written by
  \<open>solve_conn_curs\<close> only, a method of \<open>BaseRenew\<close>, on its own \<open>self\<close>.
\<close>

definition set_args :: "state \<Rightarrow> ref \<Rightarrow> pyargs \<Rightarrow> unit outcome" where
  "set_args s r a =
     (case resolve (cls (objs s r)) ''args'' of
        Some k \<Rightarrow> Returned () (update_obj s r (\<lambda>ob. ob\<lparr>inst_args := Some a\<rparr>))
      | None \<Rightarrow> Raised (AttributeError ''args'') s)"

definition set_kwargs :: "state \<Rightarrow> ref \<Rightarrow> pykwargs \<Rightarrow> unit outcome" where
  "set_kwargs s r kw =
     (case resolve (cls (objs s r)) ''kwargs'' of
        Some k \<Rightarrow> Returned () (update_obj s r (\<lambda>ob. ob\<lparr>inst_kwargs := Some kw\<rparr>))
      | None \<Rightarrow> Raised (AttributeError ''kwargs'') s)"

definition set_sub :: "state \<Rightarrow> ref \<Rightarrow> ref \<Rightarrow> state" where
  "set_sub s r x = update_obj s r (\<lambda>ob. ob\<lparr>sub_obj := Some x\<rparr>)"

definition log_event :: "state \<Rightarrow> event \<Rightarrow> state" where
  "log_event s ev = s\<lparr>trace := trace s @ [ev]\<rparr>"

text \<open>\<open>kwargs.setdefault(key, v)\<close>: the dictionary keeps an entry it already has.\<close>

definition setdefault :: "pykwargs \<Rightarrow> string \<Rightarrow> pyvalue \<Rightarrow> pykwargs" where
  "setdefault kw key v = (case map_of kw key of Some x \<Rightarrow> kw | None \<Rightarrow> kw @ [(key, v)])"

subsection \<open>Names of the module\<close>

text \<open>
  The names the module binds at top level: the four imports of lines 9 to 12 and the
  three class statements. The builtins are the ones the module's code refers to.
  A global name that is in neither is a \<open>NameError\<close> when it is evaluated.
\<close>

definition module_globals :: "string list" where
  "module_globals =
     [''cursor'', ''InterfaceError'', ''_base_cursor'', ''_base_connection'',
      ''BaseRenew'', ''RenewCursor'', ''RetryConnection'']"

definition builtin_names :: "string list" where
  "builtin_names =
     [''object'', ''tuple'', ''dict'', ''property'', ''super'', ''setattr'', ''getattr'',
      ''issubclass'', ''str'']"

definition load_global :: "string \<Rightarrow> state \<Rightarrow> unit outcome" where
  "load_global name s =
     (if name \<in> set module_globals \<or> name \<in> set builtin_names then Returned () s
      else Raised (NameError name) s)"

text \<open>
  \<open>logging.debug(...)\<close> and \<open>logging.warning(...)\<close>: the name \<open>logging\<close> is evaluated
  first, before the arguments; were it bound, the call would write a log line and
  return.
\<close>

definition logging_debug :: "state \<Rightarrow> unit outcome" where
  "logging_debug s = bind (load_global ''logging'' s) (\<lambda>_ s'. Returned () s')"

definition logging_warning :: "state \<Rightarrow> unit outcome" where
  "logging_warning s = bind (load_global ''logging'' s) (\<lambda>_ s'. Returned () s')"

subsection \<open>The driver\<close>

text \<open>
  Modelled from the spec: the driver (psycopg2) is an external collaborator and not part
  of the repository. Section 6 of the spec gives it a connection that is constructed
  from stored arguments, makes cursors and closes, and a cursor that executes and
  closes; whether a construction, a cursor creation or an execute fails, and with which
  exception, is the driver's answer and a parameter here. Closing sets the \<open>closed\<close>
  member and accepts a handle that is closed already.
\<close>

record driver =
  connect_error :: "state \<Rightarrow> pyclass \<Rightarrow> pyargs \<Rightarrow> pykwargs \<Rightarrow> exc option"
  cursor_error :: "state \<Rightarrow> ref \<Rightarrow> pyargs \<Rightarrow> pykwargs \<Rightarrow> exc option"
  execute_error :: "state \<Rightarrow> ref \<Rightarrow> pyargs \<Rightarrow> pykwargs \<Rightarrow> exc option"

definition drv_close :: "state \<Rightarrow> ref \<Rightarrow> unit outcome" where
  "drv_close s r =
     Returned () (log_event (update_obj s r (\<lambda>ob. ob\<lparr>d_closed := True\<rparr>)) (EvClose r))"

definition drv_execute :: "driver \<Rightarrow> state \<Rightarrow> ref \<Rightarrow> pyargs \<Rightarrow> pykwargs \<Rightarrow> unit outcome" where
  "drv_execute D s r a kw =
     (let s' = log_event s (EvExecute r a kw) in
      case execute_error D s r a kw of
        Some e \<Rightarrow> Raised e s'
      | None \<Rightarrow> Returned () s')"

text \<open>The driver's \<open>__init__\<close> of a connection (it connects) and of a cursor (on a connection).\<close>

definition drv_connection_init ::
  "driver \<Rightarrow> state \<Rightarrow> ref \<Rightarrow> pyargs \<Rightarrow> pykwargs \<Rightarrow> unit outcome" where
  "drv_connection_init D s r a kw =
     (case connect_error D s (cls (objs s r)) a kw of
        Some e \<Rightarrow> Raised e s
      | None \<Rightarrow>
          Returned ()
            (log_event (update_obj s r (\<lambda>ob. ob\<lparr>d_closed := False, d_cursor_factory := VNone\<rparr>))
               (EvConnect (cls (objs s r)) a kw r)))"

definition drv_cursor_init :: "state \<Rightarrow> ref \<Rightarrow> pyargs \<Rightarrow> pykwargs \<Rightarrow> unit outcome" where
  "drv_cursor_init s r a kw =
     (case a of
        VRef n # rest \<Rightarrow>
          Returned () (update_obj s r (\<lambda>ob. ob\<lparr>d_closed := False, d_connection := n\<rparr>))
      | _ \<Rightarrow> Raised (TypeError ''argument 1 must be a connection'') s)"

subsection \<open>Constructing objects\<close>

text \<open>\<open>BaseRenew.__init__\<close> (lines 33 to 35): both arguments go through the setters.\<close>

definition BaseRenew_init :: "state \<Rightarrow> ref \<Rightarrow> pyargs \<Rightarrow> pykwargs \<Rightarrow> unit outcome" where
  "BaseRenew_init s self a kw = bind (set_args s self a) (\<lambda>_ s1. set_kwargs s1 self kw)"

text \<open>\<open>RenewCursor.__init__\<close> (lines 152 to 154).\<close>

definition RenewCursor_init :: "state \<Rightarrow> ref \<Rightarrow> pyargs \<Rightarrow> pykwargs \<Rightarrow> unit outcome" where
  "RenewCursor_init s self a kw =
     bind (drv_cursor_init s self a kw) (\<lambda>_ s1. BaseRenew_init s1 self a kw)"

text \<open>\<open>RetryConnection.__init__\<close> (lines 210 to 212).\<close>

definition RetryConnection_init ::
  "driver \<Rightarrow> state \<Rightarrow> ref \<Rightarrow> pyargs \<Rightarrow> pykwargs \<Rightarrow> unit outcome" where
  "RetryConnection_init D s self a kw =
     bind (drv_connection_init D s self a kw) (\<lambda>_ s1. BaseRenew_init s1 self a kw)"

definition fresh_obj :: "pyclass \<Rightarrow> ref \<Rightarrow> pyobj" where
  "fresh_obj k r =
     \<lparr>cls = k, d_closed = False, d_connection = r, d_cursor_factory = VNone,
      sub_obj = None, inst_args = None, inst_kwargs = None\<rparr>"

text \<open>
  \<open>klass(*a, **kw)\<close>: a new object of the class, then the \<open>__init__\<close> the class
  resolves to; \<open>object.__init__\<close> takes no arguments.
\<close>

definition py_new :: "driver \<Rightarrow> state \<Rightarrow> pyclass \<Rightarrow> pyargs \<Rightarrow> pykwargs \<Rightarrow> ref outcome" where
  "py_new D s k a kw =
     (let r = next_ref s;
          s0 = s\<lparr>objs := (objs s)(r := fresh_obj k r), next_ref := Suc r\<rparr>
      in bind
           (case resolve k ''__init__'' of
              Some RenewCursor \<Rightarrow> RenewCursor_init s0 r a kw
            | Some RetryConnection \<Rightarrow> RetryConnection_init D s0 r a kw
            | Some BaseRenew \<Rightarrow> BaseRenew_init s0 r a kw
            | Some BaseCursor \<Rightarrow> drv_cursor_init s0 r a kw
            | Some BaseConnection \<Rightarrow> drv_connection_init D s0 r a kw
            | _ \<Rightarrow>
                (if a = [] \<and> kw = [] then Returned () s0
                 else Raised (TypeError ''object() takes no arguments'') s0))
           (\<lambda>_ s1. Returned r s1))"

text \<open>
  The driver's \<open>connection.cursor(*a, **kw)\<close>: the factory is the keyword
  \<open>cursor_factory\<close> when it names a class, else the connection's own, else the driver's
  cursor class, and it is called with the connection and the cursor's name.
\<close>

definition drv_cursor :: "driver \<Rightarrow> state \<Rightarrow> ref \<Rightarrow> pyargs \<Rightarrow> pykwargs \<Rightarrow> ref outcome" where
  "drv_cursor D s conn a kw =
     (case cursor_error D s conn a kw of
        Some e \<Rightarrow> Raised e s
      | None \<Rightarrow>
          (let name = (case a of x # rest \<Rightarrow> x
                       | [] \<Rightarrow> (case map_of kw ''name'' of Some v \<Rightarrow> v | None \<Rightarrow> VNone));
               factory = (case map_of kw ''cursor_factory'' of
                            Some (VClass k) \<Rightarrow> k
                          | _ \<Rightarrow> (case d_cursor_factory (objs s conn) of
                                      VClass k \<Rightarrow> k
                                    | _ \<Rightarrow> BaseCursor))
           in bind (py_new D s factory [VRef conn, name] [])
                (\<lambda>r s1. Returned r (log_event s1 (EvCursor conn a kw r)))))"

subsection \<open>\<open>BaseRenew.close\<close>\<close>

text \<open>
  \<open>obj.close()\<close> calls what the attribute \<open>close\<close> of the object is. \<open>BaseRenew.close\<close>
  (lines 133 to 141) closes \<open>self.sub\<close> that way when \<open>recursive\<close> holds and a successor
  is set, and then calls \<open>super(BaseRenew, self).close()\<close>.
\<close>

fun call_close :: "nat \<Rightarrow> state \<Rightarrow> ref \<Rightarrow> unit outcome"
and BaseRenew_close :: "nat \<Rightarrow> state \<Rightarrow> ref \<Rightarrow> bool \<Rightarrow> unit outcome" where
  "call_close 0 s r = Raised RecursionError s"
| "call_close (Suc d) s r =
     bind (get_method d s r ''close'')
       (\<lambda>(k, r') s1.
          if k = BaseCursor \<or> k = BaseConnection then drv_close s1 r'
          else if k = BaseRenew then BaseRenew_close d s1 r' True
          else Raised (TypeError ''object is not callable'') s1)"
| "BaseRenew_close 0 s self recursive = Raised RecursionError s"
| "BaseRenew_close (Suc d) s self recursive =
     bind
       (case sub_obj (objs s self) of
          Some r \<Rightarrow> if recursive then call_close d s r else Returned () s
        | None \<Rightarrow> Returned () s)
       (\<lambda>_ s1.
          case super_resolve (cls (objs s1 self)) BaseRenew ''close'' of
            Some BaseCursor \<Rightarrow> drv_close s1 self
          | Some BaseConnection \<Rightarrow> drv_close s1 self
          | _ \<Rightarrow> Raised (AttributeError ''close'') s1)"

subsection \<open>Renewal and \<open>RetryConnection.cursor\<close>\<close>

text \<open>
  \<open>solve_conn_curs\<close> (lines 114 to 131), \<open>RetryConnection.cursor\<close> (lines 214 to 233)
  and \<open>RetryConnection.__cursor\<close> (lines 235 to 248) call each other: renewing a cursor
  asks its connection for a cursor, and a closed connection renews itself before it makes
  one. \<open>call_cursor\<close> is the call \<open>conn.cursor(*a, **kw)\<close> on whatever \<open>conn\<close> is.
  Reading \<open>cur_conn.connection\<close> changes nothing, so the three reads of lines 122 to 125
  are one read here; \<open>self.sub\<close> is in no \<open>__fix_attrs__\<close> and is the instance's own.
\<close>

function (sequential) solve_conn_curs :: "driver \<Rightarrow> nat \<Rightarrow> state \<Rightarrow> ref \<Rightarrow> ref \<Rightarrow> unit outcome"
and call_cursor :: "driver \<Rightarrow> nat \<Rightarrow> state \<Rightarrow> ref \<Rightarrow> pyargs \<Rightarrow> pykwargs \<Rightarrow> ref outcome"
and RetryConnection_cursor ::
  "driver \<Rightarrow> nat \<Rightarrow> state \<Rightarrow> ref \<Rightarrow> pyargs \<Rightarrow> pykwargs \<Rightarrow> ref outcome"
and RetryConnection_private_cursor ::
  "driver \<Rightarrow> nat \<Rightarrow> state \<Rightarrow> ref \<Rightarrow> pyargs \<Rightarrow> pykwargs \<Rightarrow> ref outcome" where
  "solve_conn_curs D 0 s self cur_conn = Raised RecursionError s"
| "solve_conn_curs D (Suc d) s self cur_conn =
     (if issubclass (cls (objs s cur_conn)) BaseCursor then
        bind (lift s (py_getattr d s cur_conn ''connection'')) (\<lambda>cv s1.
        bind (lift s1 (getattr_value d s1 cv ''closed'')) (\<lambda>closed s2.
        bind (as_ref s2 cv) (\<lambda>old s3.
        bind (if truthy closed then
                bind (read_spec d s3 old) (\<lambda>(a, kw) s4. py_new D s4 (cls (objs s4 old)) a kw)
              else Returned old s3) (\<lambda>conn s5.
        bind (read_spec d s5 self) (\<lambda>(a, kw) s6.
        bind (call_cursor D d s6 conn a kw) (\<lambda>cur s7.
        Returned () (set_sub s7 self cur)))))))
      else if issubclass (cls (objs s cur_conn)) BaseConnection then
        bind (read_spec d s self) (\<lambda>(a, kw) s1.
        bind (py_new D s1 (cls (objs s1 cur_conn)) a kw) (\<lambda>new s2.
        Returned () (set_sub s2 self new)))
      else logging_warning s)"
| "call_cursor D 0 s r a kw = Raised RecursionError s"
| "call_cursor D (Suc d) s r a kw =
     bind (get_method d s r ''cursor'')
       (\<lambda>(k, r') s1.
          if k = RetryConnection then RetryConnection_cursor D d s1 r' a kw
          else if k = BaseConnection then drv_cursor D s1 r' a kw
          else Raised (TypeError ''object is not callable'') s1)"
| "RetryConnection_cursor D 0 s self a kw = Raised RecursionError s"
| "RetryConnection_cursor D (Suc d) s self a kw =
     bind (lift s (py_getattr d s self ''cursor_factory'')) (\<lambda>own s1.
     bind (lift s1 (py_getattr d s1 self ''closed'')) (\<lambda>closed s2.
     bind (if truthy closed then solve_conn_curs D d s2 self self else Returned () s2) (\<lambda>_ s3.
     bind (RetryConnection_private_cursor D d s3 self a
             (setdefault kw ''cursor_factory'' (if truthy own then own else VClass RenewCursor)))
       (\<lambda>cur s4.
     bind (set_args s4 cur a) (\<lambda>_ s5.
     bind (set_kwargs s5 cur
             (setdefault kw ''cursor_factory'' (if truthy own then own else VClass RenewCursor)))
       (\<lambda>_ s6.
     Returned cur s6))))))"
| "RetryConnection_private_cursor D 0 s self a kw = Raised RecursionError s"
| "RetryConnection_private_cursor D (Suc d) s self a kw =
     (case sub_obj (objs s self) of
        Some r \<Rightarrow> call_cursor D d s r a kw
      | None \<Rightarrow>
          (case super_resolve (cls (objs s self)) RetryConnection ''cursor'' of
             Some BaseConnection \<Rightarrow> drv_cursor D s self a kw
           | _ \<Rightarrow> Raised (AttributeError ''cursor'') s))"
  by pat_completeness auto

termination
  by (relation "measure (\<lambda>x. case x of
        Inl (Inl (D, d, r)) \<Rightarrow> d
      | Inl (Inr (D, d, r)) \<Rightarrow> d
      | Inr (Inl (D, d, r)) \<Rightarrow> d
      | Inr (Inr (D, d, r)) \<Rightarrow> d)") auto

subsection \<open>\<open>RenewCursor.execute\<close>\<close>

text \<open>
  \<open>RenewCursor.execute\<close> (lines 156 to 188) and \<open>RenewCursor.__execute\<close> (lines 190 to
  203); \<open>call_execute\<close> is the call \<open>self.sub.execute(*a, **kw)\<close> on whatever the
  successor is. The handler of line 174 takes \<open>InterfaceError\<close> only; its first test,
  line 176, is the truth value of the string constant itself.
\<close>

function (sequential) call_execute :: "driver \<Rightarrow> nat \<Rightarrow> state \<Rightarrow> ref \<Rightarrow> pyargs \<Rightarrow> pykwargs \<Rightarrow> unit outcome"
and RenewCursor_execute ::
  "driver \<Rightarrow> nat \<Rightarrow> state \<Rightarrow> ref \<Rightarrow> pyargs \<Rightarrow> pykwargs \<Rightarrow> unit outcome"
and RenewCursor_private_execute ::
  "driver \<Rightarrow> nat \<Rightarrow> state \<Rightarrow> ref \<Rightarrow> pyargs \<Rightarrow> pykwargs \<Rightarrow> unit outcome" where
  "call_execute D 0 s r a kw = Raised RecursionError s"
| "call_execute D (Suc d) s r a kw =
     bind (get_method d s r ''execute'')
       (\<lambda>(k, r') s1.
          if k = RenewCursor then RenewCursor_execute D d s1 r' a kw
          else if k = BaseCursor then drv_execute D s1 r' a kw
          else Raised (TypeError ''object is not callable'') s1)"
| "RenewCursor_execute D 0 s self a kw = Raised RecursionError s"
| "RenewCursor_execute D (Suc d) s self a kw =
     bind (lift s (py_getattr d s self ''connection'')) (\<lambda>cv s1.
     bind (lift s1 (getattr_value d s1 cv ''closed'')) (\<lambda>conn_closed s2.
     bind (if truthy conn_closed then
             bind (logging_debug s2) (\<lambda>_ s'. solve_conn_curs D d s' self self)
           else Returned () s2) (\<lambda>_ s3.
     bind (lift s3 (py_getattr d s3 self ''closed'')) (\<lambda>self_closed s4.
     bind (if truthy self_closed then
             bind (logging_debug s4) (\<lambda>_ s'. solve_conn_curs D d s' self self)
           else Returned () s4) (\<lambda>_ s5.
     (case RenewCursor_private_execute D d s5 self a kw of
        Returned u s6 \<Rightarrow> Returned u s6
      | Raised e s6 \<Rightarrow>
          (case e of
             InterfaceError m \<Rightarrow>
               bind
                 (if truthy (VStr ''cursor already closed'') then
                    bind (call_close d s6 self) (\<lambda>_ s7.
                    bind (logging_debug s7) (\<lambda>_ s8.
                    solve_conn_curs D d s8 self self))
                  else if ''connection already closed'' = m then
                    bind (lift s6 (py_getattr d s6 self ''connection'')) (\<lambda>cv' s7.
                    bind (as_ref s7 cv') (\<lambda>conn s8.
                    bind (call_close d s8 conn) (\<lambda>_ s9.
                    bind (logging_debug s9) (\<lambda>_ s10.
                    solve_conn_curs D d s10 self self))))
                  else Raised e s6)
                 (\<lambda>_ s11. RenewCursor_private_execute D d s11 self a kw)
           | _ \<Rightarrow> Raised e s6)))))))"
| "RenewCursor_private_execute D 0 s self a kw = Raised RecursionError s"
| "RenewCursor_private_execute D (Suc d) s self a kw =
     (case sub_obj (objs s self) of
        Some r \<Rightarrow> call_execute D d s r a kw
      | None \<Rightarrow>
          (case super_resolve (cls (objs s self)) RenewCursor ''execute'' of
             Some BaseCursor \<Rightarrow> drv_execute D s self a kw
           | _ \<Rightarrow> Raised (AttributeError ''execute'') s))"
  by pat_completeness auto

termination
  by (relation "measure (\<lambda>x. case x of
        Inl (D, d, r) \<Rightarrow> d
      | Inr (Inl (D, d, r)) \<Rightarrow> d
      | Inr (Inr (D, d, r)) \<Rightarrow> d)") auto

subsection \<open>What a call leaves alone\<close>

text \<open>
  \<open>frame s s'\<close>: no reference is handed out twice, and every object that existed in
  \<open>s\<close> has kept its class in \<open>s'\<close>.
\<close>

definition frame :: "state \<Rightarrow> state \<Rightarrow> bool" where
  "frame s s' = (next_ref s \<le> next_ref s' \<and> (\<forall>r < next_ref s. cls (objs s' r) = cls (objs s r)))"

subsection \<open>Example stores\<close>

text \<open>
  A store holding the given objects at the references \<open>0, 1, ...\<close>; every other
  reference is a plain object. The examples put a \<open>RetryConnection\<close> at 0 and a
  \<open>RenewCursor\<close> on it at 1, as \<open>RetryConnection.cursor()\<close> leaves them.
\<close>

definition store_of :: "pyobj list \<Rightarrow> state" where
  "store_of obs =
     \<lparr>objs = (\<lambda>r. if r < length obs then obs ! r else fresh_obj Object r),
      next_ref = length obs, trace = []\<rparr>"

definition a_connection :: "bool \<Rightarrow> ref option \<Rightarrow> pyobj" where
  "a_connection closed sub =
     \<lparr>cls = RetryConnection, d_closed = closed, d_connection = 0, d_cursor_factory = VNone,
      sub_obj = sub, inst_args = Some [VStr ''dbname=test''], inst_kwargs = Some []\<rparr>"

definition a_cursor :: "bool \<Rightarrow> ref \<Rightarrow> ref option \<Rightarrow> pyobj" where
  "a_cursor closed conn sub =
     \<lparr>cls = RenewCursor, d_closed = closed, d_connection = conn, d_cursor_factory = VNone,
      sub_obj = sub, inst_args = Some [],
      inst_kwargs = Some [(''cursor_factory'', VClass RenewCursor)]\<rparr>"

text \<open>A driver on which nothing fails, and one whose first \<open>execute\<close> raises and later ones pass.\<close>

definition ok_driver :: driver where
  "ok_driver =
     \<lparr>connect_error = (\<lambda>s k a kw. None), cursor_error = (\<lambda>s r a kw. None),
      execute_error = (\<lambda>s r a kw. None)\<rparr>"

definition first_execute_raises :: "exc \<Rightarrow> driver" where
  "first_execute_raises e =
     \<lparr>connect_error = (\<lambda>s k a kw. None), cursor_error = (\<lambda>s r a kw. None),
      execute_error = (\<lambda>s r a kw. if trace s = [] then Some e else None)\<rparr>"

fun raised :: "'a outcome \<Rightarrow> exc option" where
  "raised (Raised e s) = Some e"
| "raised (Returned x s) = None"

fun final :: "'a outcome \<Rightarrow> state" where
  "final (Raised e s) = s"
| "final (Returned x s) = s"

section \<open>Properties\<close>

subsection \<open>Auxiliary facts\<close>

lemma bind_Raised: "bind (Raised e s) k = Raised e s"
  by (simp add: bind_def)

lemma bind_Returned: "bind (Returned x s) k = k x s"
  by (simp add: bind_def)

lemma lift_Inr: "lift s (Inr x) = Returned x s"
  by (simp add: lift_def)

lemma lift_Inl: "lift s (Inl e) = Raised e s"
  by (simp add: lift_def)

lemma resolve_handles:
  "resolve RenewCursor ''__getattribute__'' = Some BaseRenew"
  "resolve RetryConnection ''__getattribute__'' = Some BaseRenew"
  "resolve RenewCursor ''close'' = Some BaseCursor"
  "resolve RetryConnection ''close'' = Some BaseConnection"
  "super_resolve RenewCursor BaseRenew ''close'' = None"
  "super_resolve RetryConnection BaseRenew ''close'' = None"
  "super_resolve RenewCursor RenewCursor ''execute'' = Some BaseCursor"
  "super_resolve RetryConnection RetryConnection ''cursor'' = Some BaseConnection"
  by (simp_all add: resolve_def super_resolve_def)

lemma fix_attrs_handles:
  "fix_attrs RenewCursor = [''closed'', ''connection'', ''fetchall'', ''fetchone'', ''fetchall'']"
  "fix_attrs RetryConnection = [''closed'', ''connection'']"
  by (simp_all add: fix_attrs_def resolve_def)

lemma logging_unbound: "load_global ''logging'' s = Raised (NameError ''logging'') s"
  by (simp add: load_global_def module_globals_def builtin_names_def)

lemma logging_debug_raises: "logging_debug s = Raised (NameError ''logging'') s"
  by (simp add: logging_debug_def logging_unbound bind_Raised)

lemma logging_warning_raises: "logging_warning s = Raised (NameError ''logging'') s"
  by (simp add: logging_warning_def logging_unbound bind_Raised)

lemma solve_conn_curs_Returned:
  assumes "solve_conn_curs D d s self cc = Returned u s'"
  shows "\<exists>s7 r. s' = set_sub s7 self r"
proof (cases d)
  case 0
  with assms show ?thesis by simp
next
  case (Suc n)
  with assms show ?thesis
    by (auto simp: bind_def logging_warning_raises split: if_splits outcome.splits prod.splits)
qed

lemma sub_obj_set_sub: "sub_obj (objs (set_sub s h r) h) = Some r"
  by (simp add: set_sub_def update_obj_def)


lemma frame_refl: "frame s s"
  by (simp add: frame_def)

lemma frame_trans: "frame s s1 \<Longrightarrow> frame s1 s2 \<Longrightarrow> frame s s2"
  by (auto simp: frame_def)

lemma frame_set: "frame s (set_sub s h r)" "frame s (log_event s ev)"
  by (simp_all add: frame_def set_sub_def update_obj_def log_event_def)

lemma frame_set_args: "set_args s h a = Returned u s' \<Longrightarrow> frame s s'"
  by (auto simp: set_args_def frame_def update_obj_def split: option.splits)

lemma frame_set_kwargs: "set_kwargs s h kw = Returned u s' \<Longrightarrow> frame s s'"
  by (auto simp: set_kwargs_def frame_def update_obj_def split: option.splits)

lemma frame_update_obj: "cls (f (objs s r)) = cls (objs s r) \<Longrightarrow> frame s (update_obj s r f)"
  by (simp add: frame_def update_obj_def)

lemma frame_BaseRenew_init:
  assumes "BaseRenew_init s r a kw = Returned u s'"
  shows "frame s s'"
proof -
  from assms obtain s1 where "set_args s r a = Returned () s1" "set_kwargs s1 r kw = Returned u s'"
    unfolding BaseRenew_init_def by (cases "set_args s r a") (auto simp: bind_def)
  then show ?thesis
    using frame_set_args frame_set_kwargs frame_trans by blast
qed

lemma frame_drv_cursor_init: "drv_cursor_init s r a kw = Returned u s' \<Longrightarrow> frame s s'"
  by (auto simp: drv_cursor_init_def frame_update_obj split: list.splits pyvalue.splits)

lemma frame_drv_connection_init: "drv_connection_init D s r a kw = Returned u s' \<Longrightarrow> frame s s'"
  by (auto simp: drv_connection_init_def split: option.splits
      intro!: frame_trans[OF frame_update_obj frame_set(2)])


lemma frame_alloc:
  "frame s (s\<lparr>objs := (objs s)(next_ref s := ob), next_ref := Suc (next_ref s)\<rparr>)"
  by (simp add: frame_def)

lemma frame_RenewCursor_init: "RenewCursor_init s r a kw = Returned u s' \<Longrightarrow> frame s s'"
  by (auto simp: RenewCursor_init_def bind_def split: outcome.splits
      dest!: frame_drv_cursor_init frame_BaseRenew_init intro: frame_trans)

lemma frame_RetryConnection_init: "RetryConnection_init D s r a kw = Returned u s' \<Longrightarrow> frame s s'"
  by (auto simp: RetryConnection_init_def bind_def split: outcome.splits
      dest!: frame_drv_connection_init frame_BaseRenew_init intro: frame_trans)

lemma frame_py_new:
  assumes "py_new D s k a kw = Returned r s'"
  shows "frame s s'"
proof -
  let ?s0 = "s\<lparr>objs := (objs s)(next_ref s := fresh_obj k (next_ref s)), next_ref := Suc (next_ref s)\<rparr>"
  have "frame ?s0 s'"
    using assms
    by (cases "resolve k ''__init__''"; cases "the (resolve k ''__init__'')")
      (auto simp: py_new_def Let_def bind_def frame_refl split: outcome.splits if_splits
        dest: frame_RenewCursor_init frame_RetryConnection_init frame_BaseRenew_init
          frame_drv_cursor_init frame_drv_connection_init)
  with frame_alloc[of s] show ?thesis
    by (rule frame_trans)
qed

lemma frame_drv_cursor:
  assumes "drv_cursor D s c a kw = Returned r s'"
  shows "frame s s'"
proof -
  from assms obtain k nm s1 where "py_new D s k [VRef c, nm] [] = Returned r s1"
    and "s' = log_event s1 (EvCursor c a kw r)"
    by (auto simp: drv_cursor_def Let_def bind_def split: option.splits outcome.splits)
  then show ?thesis
    using frame_py_new frame_set(2) frame_trans by blast
qed


lemma bind_ReturnedD:
  "bind m k = Returned x s' \<Longrightarrow> \<exists>y s1. m = Returned y s1 \<and> k y s1 = Returned x s'"
  by (cases m) (simp_all add: bind_def)

lemma lift_ReturnedD: "lift s r = Returned x s1 \<Longrightarrow> s1 = s \<and> r = Inr x"
  by (cases r) (simp_all add: lift_def)

lemma as_ref_ReturnedD: "as_ref s v = Returned r s1 \<Longrightarrow> s1 = s \<and> v = VRef r"
  by (cases v) (simp_all add: as_ref_def)

lemma read_spec_ReturnedD: "read_spec d s r = Returned x s1 \<Longrightarrow> s1 = s"
  by (auto simp: read_spec_def split: sum.splits pyvalue.splits)

lemma get_method_ReturnedD: "get_method d s r name = Returned x s1 \<Longrightarrow> s1 = s"
  by (auto simp: get_method_def split: sum.splits pyvalue.splits)

lemma frame_renewal:
  "solve_conn_curs D d s self cc = Returned u s' \<Longrightarrow> frame s s'"
  "call_cursor D d s r a kw = Returned c s' \<Longrightarrow> frame s s'"
  "RetryConnection_cursor D d s r a kw = Returned c s' \<Longrightarrow> frame s s'"
  "RetryConnection_private_cursor D d s r a kw = Returned c s' \<Longrightarrow> frame s s'"
proof (induction D d s self cc and D d s r a kw and D d s r a kw and D d s r a kw
    arbitrary: u s' and c s' and c s' and c s'
    rule: solve_conn_curs_call_cursor_RetryConnection_cursor_RetryConnection_private_cursor.induct)
  case (2 D d s self cur_conn)
  show ?case
  proof (cases "issubclass (cls (objs s cur_conn)) BaseCursor")
    case True
    with "2.prems" obtain cv closed old conn s5 a kw cur s7 where
      st: "(if truthy closed then
              bind (read_spec d s old) (\<lambda>(a, kw) s4. py_new D s4 (cls (objs s4 old)) a kw)
            else Returned old s) = Returned conn s5"
      and cc: "call_cursor D d s5 conn a kw = Returned cur s7"
      and s': "s' = set_sub s7 self cur"
      by (auto dest!: bind_ReturnedD lift_ReturnedD as_ref_ReturnedD read_spec_ReturnedD
          split: prod.splits)
    from st have "frame s s5"
      by (auto dest!: bind_ReturnedD read_spec_ReturnedD frame_py_new simp: frame_refl
          split: if_splits prod.splits)
    moreover from cc True have "frame s5 s7"
      by (auto intro: "2.IH")
    ultimately show ?thesis
      unfolding s' using frame_set(1) frame_trans by blast
  next
    case False
    with "2.prems" show ?thesis
      by (auto dest!: bind_ReturnedD read_spec_ReturnedD frame_py_new
          simp: logging_warning_raises split: if_splits prod.splits
          intro: frame_trans[OF _ frame_set(1)])
  qed
next
  case (4 D d s r a kw)
  from "4.prems" show ?case
    by (auto dest!: bind_ReturnedD get_method_ReturnedD split: if_splits
        intro: "4.IH" frame_drv_cursor)
next
  case (6 D d s self a kw)
  from "6.prems" obtain own closed s3 cur s4 s5 where
    a: "(if truthy closed then solve_conn_curs D d s self self else Returned () s) = Returned () s3"
    and b: "RetryConnection_private_cursor D d s3 self a
              (setdefault kw ''cursor_factory'' (if truthy own then own else VClass RenewCursor))
            = Returned cur s4"
    and c: "set_args s4 cur a = Returned () s5"
    and e: "set_kwargs s5 cur
              (setdefault kw ''cursor_factory'' (if truthy own then own else VClass RenewCursor))
            = Returned () s'"
    by (auto dest!: bind_ReturnedD lift_ReturnedD)
  have f1: "frame s s3"
  proof (cases "truthy closed")
    case True
    with a have "solve_conn_curs D d s self self = Returned () s3"
      by simp
    with True show ?thesis
      by (rule "6.IH"(1))
  next
    case False
    with a show ?thesis
      by (simp add: frame_refl)
  qed
  have f2: "frame s3 s4"
    by (rule "6.IH"(2)[OF b])
  have f3: "frame s4 s'"
    by (rule frame_trans[OF frame_set_args[OF c] frame_set_kwargs[OF e]])
  show ?case
    by (rule frame_trans[OF frame_trans[OF f1 f2] f3])
next
  case (8 D d s self a kw)
  show ?case
  proof (cases "sub_obj (objs s self)")
    case None
    with "8.prems" have "drv_cursor D s self a kw = Returned c s'"
      by (simp split: option.splits pyclass.splits)
    then show ?thesis
      by (rule frame_drv_cursor)
  next
    case (Some r)
    with "8.prems" have "call_cursor D d s r a kw = Returned c s'"
      by simp
    with Some show ?thesis
      by (rule "8.IH")
  qed
qed simp_all

lemma cls_drv_close: "drv_close s r = Returned u s' \<Longrightarrow> cls (objs s' x) = cls (objs s x)"
  by (auto simp: drv_close_def log_event_def update_obj_def)

lemma cls_close:
  "call_close d s r = Returned u s' \<Longrightarrow> cls (objs s' x) = cls (objs s x)"
  "BaseRenew_close d s r b = Returned u s' \<Longrightarrow> cls (objs s' x) = cls (objs s x)"
proof (induction d s r and d s r b arbitrary: u s' and u s' rule: call_close_BaseRenew_close.induct)
  case (2 d s r)
  from "2.prems" obtain k r' where m: "get_method d s r ''close'' = Returned (k, r') s"
    and body: "(if k = BaseCursor \<or> k = BaseConnection then drv_close s r'
          else if k = BaseRenew then BaseRenew_close d s r' True
          else Raised (TypeError ''object is not callable'') s) = Returned u s'"
    by (auto dest!: bind_ReturnedD dest: get_method_ReturnedD)
  show ?case
  proof (cases "k = BaseCursor \<or> k = BaseConnection")
    case True
    with body show ?thesis
      by (auto dest: cls_drv_close)
  next
    case False
    with body have k: "k = BaseRenew" and c: "BaseRenew_close d s r' True = Returned u s'"
      by (auto split: if_splits)
    from False k c show ?thesis
      using "2.IH" by blast
  qed
next
  case (4 d s self recursive)
  from "4.prems" obtain s1 where
    first: "(case sub_obj (objs s self) of
          Some r \<Rightarrow> if recursive then call_close d s r else Returned () s
        | None \<Rightarrow> Returned () s) = Returned () s1"
    and last: "(case super_resolve (cls (objs s1 self)) BaseRenew ''close'' of
            Some BaseCursor \<Rightarrow> drv_close s1 self
          | Some BaseConnection \<Rightarrow> drv_close s1 self
          | _ \<Rightarrow> Raised (AttributeError ''close'') s1) = Returned u s'"
    by (auto dest!: bind_ReturnedD)
  from first have "cls (objs s1 x) = cls (objs s x)"
    using "4.IH" by (auto split: option.splits if_splits)
  moreover from last have "cls (objs s' x) = cls (objs s1 x)"
    by (auto split: option.splits pyclass.splits dest: cls_drv_close)
  ultimately show ?case
    by simp
qed simp_all

lemma bind_cong_Returned:
  "(\<And>x s1. m = Returned x s1 \<Longrightarrow> k x s1 = k' x s1) \<Longrightarrow> bind m k = bind m k'"
  by (cases m) (simp_all add: bind_def)

lemma frame_cls: "frame s s' \<Longrightarrow> r < next_ref s \<Longrightarrow> cls (objs s' r) = cls (objs s r)"
  by (simp add: frame_def)

lemma read_spec_BaseRenew:
  assumes "cls (objs s n) = RetryConnection \<or> cls (objs s n) = RenewCursor"
  shows "read_spec (Suc (Suc d)) s n =
           Returned (case inst_args (objs s n) of None \<Rightarrow> [] | Some a \<Rightarrow> a,
                     case inst_kwargs (objs s n) of None \<Rightarrow> [] | Some kw \<Rightarrow> kw) s"
  using assms
  by (auto simp: read_spec_def resolve_handles fix_attrs_handles object_getattribute_def
      class_member_def resolve_def)

lemmas ex_defs = store_of_def a_connection_def a_cursor_def ok_driver_def first_execute_raises_def
  resolve_def super_resolve_def fix_attrs_def object_getattribute_def class_member_def
  getattr_value_def issubclass_def fresh_obj_def get_method_def as_ref_def read_spec_def
  bind_def lift_def logging_debug_def logging_warning_def load_global_def module_globals_def
  builtin_names_def drv_close_def drv_execute_def log_event_def update_obj_def set_sub_def
  set_args_def set_kwargs_def

subsection \<open>Delegated attributes\<close>

text \<open>
  Claim C5. For a cursor and each of \<open>closed\<close>, \<open>connection\<close>, \<open>fetchone\<close>, \<open>fetchall\<close>,
  and for a connection and each of \<open>closed\<close>, \<open>connection\<close>, reading the attribute gives
  what reading it on the successor gives whenever a successor is set, and the handle's own
  value otherwise. A store that a renewal of the handle has returned has a successor set,
  so there the read is the successor's.
\<close>

theorem fix_attrs_read_from_successor:
  assumes "(cls (objs s h) = RenewCursor \<and> key \<in> {''closed'', ''connection'', ''fetchone'', ''fetchall''})
         \<or> (cls (objs s h) = RetryConnection \<and> key \<in> {''closed'', ''connection''})"
  shows "py_getattr (Suc (Suc d)) s h key =
           (case sub_obj (objs s h) of
              Some r \<Rightarrow> py_getattr d s r key
            | None \<Rightarrow> object_getattribute s h key)
       \<and> (\<forall>D n s0 u. solve_conn_curs D n s0 h h = Returned u s \<longrightarrow>
             (\<exists>r. sub_obj (objs s h) = Some r
                \<and> py_getattr (Suc (Suc d)) s h key = py_getattr d s r key))"
proof -
  have read: "py_getattr (Suc (Suc d)) s h key =
           (case sub_obj (objs s h) of
              Some r \<Rightarrow> py_getattr d s r key
            | None \<Rightarrow> object_getattribute s h key)"
    using assms by (auto simp: resolve_handles fix_attrs_handles)
  have "\<exists>r. sub_obj (objs s h) = Some r
            \<and> py_getattr (Suc (Suc d)) s h key = py_getattr d s r key"
    if "solve_conn_curs D n s0 h h = Returned u s" for D n s0 u
  proof -
    from that obtain s7 r where "s = set_sub s7 h r"
      using solve_conn_curs_Returned by blast
    then have "sub_obj (objs s h) = Some r"
      by (simp add: sub_obj_set_sub)
    with read show ?thesis
      by simp
  qed
  with read show ?thesis
    by blast
qed

text \<open>
  A stale cursor 1, closed on the closed connection 0, with the successor 3 on the
  connection 2: the logical cursor reports the connection 2 and is open.
\<close>

theorem fix_attrs_read_from_successor_witness:
  "py_getattr (Suc (Suc (Suc (Suc 0))))
     (store_of [a_connection True None, a_cursor True 0 (Some 3),
                a_connection False None, a_cursor False 2 None]) 1 ''connection'' = Inr (VRef 2)
   \<and> py_getattr (Suc (Suc (Suc (Suc 0))))
     (store_of [a_connection True None, a_cursor True 0 (Some 3),
                a_connection False None, a_cursor False 2 None]) 1 ''closed'' = Inr (VBool False)
   \<and> py_getattr (Suc (Suc (Suc (Suc 0))))
     (store_of [a_connection True None, a_cursor True 0 (Some 3),
                a_connection False None, a_cursor False 2 None]) 3 ''closed'' = Inr (VBool False)"
  using fix_attrs_read_from_successor
     [of "store_of [a_connection True None, a_cursor True 0 (Some 3),
                a_connection False None, a_cursor False 2 None]" 1 "''connection''" "Suc (Suc 0)"]
    fix_attrs_read_from_successor
     [of "store_of [a_connection True None, a_cursor True 0 (Some 3),
                a_connection False None, a_cursor False 2 None]" 1 "''closed''" "Suc (Suc 0)"]
    fix_attrs_read_from_successor
     [of "store_of [a_connection True None, a_cursor True 0 (Some 3),
                a_connection False None, a_cursor False 2 None]" 3 "''closed''" "Suc (Suc 0)"]
  by (simp add: store_of_def a_connection_def a_cursor_def resolve_def fix_attrs_def
      object_getattribute_def class_member_def)

subsection \<open>The unbound name \<open>logging\<close>\<close>

text \<open>
  Claim C10. The module binds no name \<open>logging\<close>, so each \<open>logging.debug\<close> and
  \<open>logging.warning\<close> raises \<open>NameError\<close>: \<open>execute\<close> on a cursor whose connection
  reports closed raises it with the store unchanged, before any renewal; so does the
  pre-check of a closed cursor; an \<open>InterfaceError\<close> of \<open>__execute\<close>, whatever its
  message, ends in it once \<open>self.close()\<close> has returned; and \<open>solve_conn_curs\<close> raises it
  for an object that is neither a cursor nor a connection.
\<close>

theorem logging_calls_raise_NameError:
  "''logging'' \<notin> set module_globals
   \<and> logging_debug s = Raised (NameError ''logging'') s
   \<and> logging_warning s = Raised (NameError ''logging'') s
   \<and> (py_getattr d s c ''connection'' = Inr cv \<and> getattr_value d s cv ''closed'' = Inr v
        \<and> truthy v
      \<longrightarrow> RenewCursor_execute D (Suc d) s c a kw = Raised (NameError ''logging'') s)
   \<and> (py_getattr d s c ''connection'' = Inr cv \<and> getattr_value d s cv ''closed'' = Inr v
        \<and> \<not> truthy v \<and> py_getattr d s c ''closed'' = Inr w \<and> truthy w
      \<longrightarrow> RenewCursor_execute D (Suc d) s c a kw = Raised (NameError ''logging'') s)
   \<and> (py_getattr d s c ''connection'' = Inr cv \<and> getattr_value d s cv ''closed'' = Inr v
        \<and> \<not> truthy v \<and> py_getattr d s c ''closed'' = Inr w \<and> \<not> truthy w
        \<and> RenewCursor_private_execute D d s c a kw = Raised (InterfaceError m) s6
      \<longrightarrow> RenewCursor_execute D (Suc d) s c a kw =
            bind (call_close d s6 c) (\<lambda>_ s7. Raised (NameError ''logging'') s7))
   \<and> (\<not> issubclass (cls (objs s cc)) BaseCursor \<and> \<not> issubclass (cls (objs s cc)) BaseConnection
      \<longrightarrow> solve_conn_curs D (Suc d) s self cc = Raised (NameError ''logging'') s)"
proof -
  have g: "''logging'' \<notin> set module_globals"
    by (simp add: module_globals_def)
  have p1: "RenewCursor_execute D (Suc d) s c a kw = Raised (NameError ''logging'') s"
    if "py_getattr d s c ''connection'' = Inr cv" "getattr_value d s cv ''closed'' = Inr v" "truthy v"
    using that by (simp add: lift_Inr bind_Returned bind_Raised logging_debug_raises)
  have p2: "RenewCursor_execute D (Suc d) s c a kw = Raised (NameError ''logging'') s"
    if "py_getattr d s c ''connection'' = Inr cv" "getattr_value d s cv ''closed'' = Inr v"
      "\<not> truthy v" "py_getattr d s c ''closed'' = Inr w" "truthy w"
    using that by (simp add: lift_Inr bind_Returned bind_Raised logging_debug_raises)
  have p3: "RenewCursor_execute D (Suc d) s c a kw =
            bind (call_close d s6 c) (\<lambda>_ s7. Raised (NameError ''logging'') s7)"
    if "py_getattr d s c ''connection'' = Inr cv" "getattr_value d s cv ''closed'' = Inr v"
      "\<not> truthy v" "py_getattr d s c ''closed'' = Inr w" "\<not> truthy w"
      "RenewCursor_private_execute D d s c a kw = Raised (InterfaceError m) s6"
  proof -
    have "bind (bind (call_close d s6 c)
                 (\<lambda>_ s7. bind (logging_debug s7) (\<lambda>_ s8. solve_conn_curs D d s8 c c)))
            (\<lambda>_ s11. RenewCursor_private_execute D d s11 c a kw)
          = bind (call_close d s6 c) (\<lambda>_ s7. Raised (NameError ''logging'') s7)"
      by (cases "call_close d s6 c") (simp_all add: bind_def logging_debug_raises)
    with that show ?thesis
      by (simp add: lift_Inr bind_Returned)
  qed
  have p4: "solve_conn_curs D (Suc d) s self cc = Raised (NameError ''logging'') s"
    if "\<not> issubclass (cls (objs s cc)) BaseCursor" "\<not> issubclass (cls (objs s cc)) BaseConnection"
    using that by (simp add: logging_warning_raises)
  from g p1 p2 p3 p4 show ?thesis
    by (simp add: logging_debug_raises logging_warning_raises)
qed


text \<open>
  A cursor on a closed connection, a closed cursor on an open connection, and a renewal
  asked for the plain object 5.
\<close>

theorem logging_calls_raise_NameError_witness:
  "RenewCursor_execute ok_driver (Suc (Suc (Suc 0)))
      (store_of [a_connection True None, a_cursor False 0 None]) 1 [VStr ''SELECT 1''] []
     = Raised (NameError ''logging'') (store_of [a_connection True None, a_cursor False 0 None])
   \<and> RenewCursor_execute ok_driver (Suc (Suc (Suc 0)))
      (store_of [a_connection False None, a_cursor True 0 None]) 1 [VStr ''SELECT 1''] []
     = Raised (NameError ''logging'') (store_of [a_connection False None, a_cursor True 0 None])
   \<and> solve_conn_curs ok_driver (Suc (Suc (Suc 0)))
      (store_of [a_connection True None, a_cursor False 0 None]) 1 5
     = Raised (NameError ''logging'') (store_of [a_connection True None, a_cursor False 0 None])"
  using logging_calls_raise_NameError
     [where s = "store_of [a_connection True None, a_cursor False 0 None]" and d = "Suc (Suc 0)"
        and c = 1 and cv = "VRef 0" and v = "VBool True" and D = ok_driver
        and a = "[VStr ''SELECT 1'']" and kw = "[]" and cc = 5 and self = 1]
    logging_calls_raise_NameError
     [where s = "store_of [a_connection False None, a_cursor True 0 None]" and d = "Suc (Suc 0)"
        and c = 1 and cv = "VRef 0" and v = "VBool False" and w = "VBool True" and D = ok_driver
        and a = "[VStr ''SELECT 1'']" and kw = "[]"]
  by (simp add: store_of_def a_connection_def a_cursor_def resolve_def fix_attrs_def
      object_getattribute_def class_member_def getattr_value_def issubclass_def fresh_obj_def)

subsection \<open>\<open>RetryConnection.cursor\<close>\<close>

text \<open>
  The steps of \<open>RetryConnection.cursor\<close> on a connection \<open>n\<close> of the store whose
  attribute \<open>closed\<close> reads as the value \<open>closed\<close>: the keyword \<open>cursor_factory\<close> it
  passes on is the caller's when the caller gave one, else the connection's own
  \<open>cursor_factory\<close> when that is set, else \<open>RenewCursor\<close>; it renews itself first when
  it reports closed, and renewing a connection constructs a new \<open>RetryConnection\<close> from
  the stored arguments and attaches it; the cursor is made by the successor's \<open>cursor\<close>
  when a successor is set and by the driver's otherwise, with that keyword; then the two
  assignments of lines 231 and 232 run, and a cursor that is returned has \<open>BaseRenew\<close>
  among its bases and holds the arguments of this call.
\<close>

lemma RetryConnection_cursor_steps:
  assumes "cls (objs s n) = RetryConnection"
    and "n < next_ref s"
    and "py_getattr (Suc (Suc (Suc d))) s n ''closed'' = Inr closed"
  shows "let own = d_cursor_factory (objs s n);
             dflt = (if truthy own then own else VClass RenewCursor);
             kw' = setdefault kw ''cursor_factory'' dflt
         in map_of kw' ''cursor_factory''
              = Some (case map_of kw ''cursor_factory'' of Some v \<Rightarrow> v | None \<Rightarrow> dflt)
          \<and> RetryConnection_cursor D (Suc (Suc (Suc (Suc d)))) s n a kw =
              bind (if truthy closed then solve_conn_curs D (Suc (Suc (Suc d))) s n n
                    else Returned () s) (\<lambda>_ s3.
              bind (case sub_obj (objs s3 n) of
                      Some r \<Rightarrow> call_cursor D (Suc (Suc d)) s3 r a kw'
                    | None \<Rightarrow> drv_cursor D s3 n a kw') (\<lambda>cur s4.
              bind (set_args s4 cur a) (\<lambda>_ s5.
              bind (set_kwargs s5 cur kw') (\<lambda>_ s6.
              Returned cur s6))))
          \<and> solve_conn_curs D (Suc (Suc (Suc d))) s n n =
              bind (py_new D s RetryConnection
                      (case inst_args (objs s n) of None \<Rightarrow> [] | Some x \<Rightarrow> x)
                      (case inst_kwargs (objs s n) of None \<Rightarrow> [] | Some x \<Rightarrow> x))
                (\<lambda>new s2. Returned () (set_sub s2 n new))
          \<and> (\<forall>c s'. RetryConnection_cursor D (Suc (Suc (Suc (Suc d)))) s n a kw = Returned c s'
                \<longrightarrow> inst_args (objs s' c) = Some a \<and> inst_kwargs (objs s' c) = Some kw'
                  \<and> issubclass (cls (objs s' c)) BaseRenew)"
proof -
  define own where "own = d_cursor_factory (objs s n)"
  define dflt where "dflt = (if truthy own then own else VClass RenewCursor)"
  define kw' where "kw' = setdefault kw ''cursor_factory'' dflt"
  have factory: "map_of kw' ''cursor_factory''
      = Some (case map_of kw ''cursor_factory'' of Some v \<Rightarrow> v | None \<Rightarrow> dflt)"
    by (simp add: kw'_def setdefault_def map_add_def split: option.splits)
  have own_read: "py_getattr (Suc (Suc (Suc d))) s n ''cursor_factory'' = Inr own"
    using assms(1)
    by (simp add: own_def resolve_handles fix_attrs_handles object_getattribute_def
        class_member_def resolve_def)
  have priv: "RetryConnection_private_cursor D (Suc (Suc (Suc d))) s3 n a kw' =
      (case sub_obj (objs s3 n) of
         Some r \<Rightarrow> call_cursor D (Suc (Suc d)) s3 r a kw'
       | None \<Rightarrow> drv_cursor D s3 n a kw')"
    if "(if truthy closed then solve_conn_curs D (Suc (Suc (Suc d))) s n n else Returned () s)
          = Returned x s3" for x s3
  proof -
    have "frame s s3"
    proof (cases "truthy closed")
      case True
      with that have "solve_conn_curs D (Suc (Suc (Suc d))) s n n = Returned x s3"
        by (simp only: if_True)
      then show ?thesis
        by (rule frame_renewal(1))
    next
      case False
      with that have "s3 = s"
        by (simp only: if_False outcome.inject)
      then show ?thesis
        by (simp add: frame_refl)
    qed
    with assms(1,2) have "cls (objs s3 n) = RetryConnection"
      by (simp add: frame_cls)
    then show ?thesis
      by (simp add: resolve_handles split: option.splits)
  qed
  have cursor: "RetryConnection_cursor D (Suc (Suc (Suc (Suc d)))) s n a kw =
      bind (if truthy closed then solve_conn_curs D (Suc (Suc (Suc d))) s n n else Returned () s)
        (\<lambda>_ s3.
      bind (case sub_obj (objs s3 n) of
              Some r \<Rightarrow> call_cursor D (Suc (Suc d)) s3 r a kw'
            | None \<Rightarrow> drv_cursor D s3 n a kw') (\<lambda>cur s4.
      bind (set_args s4 cur a) (\<lambda>_ s5.
      bind (set_kwargs s5 cur kw') (\<lambda>_ s6.
      Returned cur s6))))"
  proof -
    have "RetryConnection_cursor D (Suc (Suc (Suc (Suc d)))) s n a kw =
      bind (if truthy closed then solve_conn_curs D (Suc (Suc (Suc d))) s n n else Returned () s)
        (\<lambda>_ s3.
      bind (RetryConnection_private_cursor D (Suc (Suc (Suc d))) s3 n a kw') (\<lambda>cur s4.
      bind (set_args s4 cur a) (\<lambda>_ s5.
      bind (set_kwargs s5 cur kw') (\<lambda>_ s6.
      Returned cur s6))))"
      unfolding RetryConnection_cursor.simps own_read assms(3) lift_Inr bind_Returned
        kw'_def dflt_def ..
    also have "\<dots> = bind (if truthy closed then solve_conn_curs D (Suc (Suc (Suc d))) s n n
                          else Returned () s) (\<lambda>_ s3.
      bind (case sub_obj (objs s3 n) of
              Some r \<Rightarrow> call_cursor D (Suc (Suc d)) s3 r a kw'
            | None \<Rightarrow> drv_cursor D s3 n a kw') (\<lambda>cur s4.
      bind (set_args s4 cur a) (\<lambda>_ s5.
      bind (set_kwargs s5 cur kw') (\<lambda>_ s6.
      Returned cur s6))))"
      by (rule bind_cong_Returned) (simp only: priv)
    finally show ?thesis .
  qed
  have renew: "solve_conn_curs D (Suc (Suc (Suc d))) s n n =
      bind (py_new D s RetryConnection
              (case inst_args (objs s n) of None \<Rightarrow> [] | Some x \<Rightarrow> x)
              (case inst_kwargs (objs s n) of None \<Rightarrow> [] | Some x \<Rightarrow> x))
        (\<lambda>new s2. Returned () (set_sub s2 n new))"
    using assms(1) by (simp add: issubclass_def bind_Returned read_spec_BaseRenew)
  have stored: "inst_args (objs s' c) = Some a \<and> inst_kwargs (objs s' c) = Some kw'
      \<and> issubclass (cls (objs s' c)) BaseRenew"
    if "RetryConnection_cursor D (Suc (Suc (Suc (Suc d)))) s n a kw = Returned c s'" for c s'
  proof -
    from that obtain s4 s5 where sa: "set_args s4 c a = Returned () s5"
      and sk: "set_kwargs s5 c kw' = Returned () s'"
      unfolding cursor by (auto dest!: bind_ReturnedD)
    from sa have "resolve (cls (objs s4 c)) ''args'' \<noteq> None"
      and s5: "s5 = update_obj s4 c (\<lambda>ob. ob\<lparr>inst_args := Some a\<rparr>)"
      by (auto simp: set_args_def split: option.splits)
    then have sub: "issubclass (cls (objs s4 c)) BaseRenew"
      by (cases "cls (objs s4 c)") (simp_all add: resolve_def issubclass_def)
    from sk have s': "s' = update_obj s5 c (\<lambda>ob. ob\<lparr>inst_kwargs := Some kw'\<rparr>)"
      by (auto simp: set_kwargs_def split: option.splits)
    from sub show ?thesis
      unfolding s' s5 by (simp add: update_obj_def)
  qed
  from factory cursor renew stored show ?thesis
    unfolding Let_def own_def[symmetric] dflt_def[symmetric] kw'_def[symmetric] by blast
qed

text \<open>
  Claim C7 says that \<open>RetryConnection.cursor\<close> makes the cursor with the caller's
  factory when one is given and overwrites the returned cursor's stored arguments before
  returning it. With the driver's own cursor class as the caller's factory, and with an
  explicit \<open>cursor_factory=None\<close>, the driver makes the cursor (object 1) and line 231
  raises \<open>AttributeError\<close>: no cursor is returned. Without the keyword the cursor is a
  \<open>RenewCursor\<close>, holds the call's arguments and is returned.
\<close>

theorem driver_class_cursor_not_returned:
  "(let s = store_of [a_connection False None];
        r = RetryConnection_cursor ok_driver (Suc (Suc (Suc (Suc 0)))) s 0 []
              [(''cursor_factory'', VClass BaseCursor)];
        r' = RetryConnection_cursor ok_driver (Suc (Suc (Suc (Suc 0)))) s 0 []
              [(''cursor_factory'', VNone)];
        r'' = RetryConnection_cursor ok_driver (Suc (Suc (Suc (Suc 0)))) s 0 [] []
    in raised r = Some (AttributeError ''args'')
     \<and> trace (final r) = [EvCursor 0 [] [(''cursor_factory'', VClass BaseCursor)] 1]
     \<and> cls (objs (final r) 1) = BaseCursor
     \<and> raised r' = Some (AttributeError ''args'')
     \<and> trace (final r') = [EvCursor 0 [] [(''cursor_factory'', VNone)] 1]
     \<and> cls (objs (final r') 1) = BaseCursor
     \<and> raised r'' = None
     \<and> cls (objs (final r'') 1) = RenewCursor
     \<and> inst_args (objs (final r'') 1) = Some []
     \<and> inst_kwargs (objs (final r'') 1) = Some [(''cursor_factory'', VClass RenewCursor)])"
  by (simp add: ex_defs Let_def py_new_def RetryConnection_init_def RenewCursor_init_def
      BaseRenew_init_def drv_connection_init_def drv_cursor_init_def drv_cursor_def setdefault_def)

subsection \<open>\<open>BaseRenew.close\<close>\<close>

text \<open>
  Claim C9, as amended. For a \<open>RenewCursor\<close> or \<open>RetryConnection\<close>, the lookup of
  \<open>super(BaseRenew, self).close\<close> finds nothing, so \<open>BaseRenew.close\<close> itself raises
  \<open>AttributeError\<close>: at once without a successor or with \<open>recursive\<close> false, and else
  after the successor's \<open>close()\<close> has returned (what that raises is passed on). The call
  \<open>h.close()\<close> on such a handle is not \<open>BaseRenew.close\<close> but the driver's \<open>close\<close>,
  whose class stands first in the linearisation.
\<close>

theorem BaseRenew_close_raises_AttributeError:
  assumes "cls (objs s h) = RenewCursor \<or> cls (objs s h) = RetryConnection"
  shows "super_resolve (cls (objs s h)) BaseRenew ''close'' = None
    \<and> (sub_obj (objs s h) = None \<or> recursive = False
        \<longrightarrow> BaseRenew_close (Suc d) s h recursive = Raised (AttributeError ''close'') s)
    \<and> (sub_obj (objs s h) = Some r \<and> call_close d s r = Returned () t
        \<longrightarrow> BaseRenew_close (Suc d) s h True = Raised (AttributeError ''close'') t)
    \<and> (sub_obj (objs s h) = Some r \<and> call_close d s r = Raised e t
        \<longrightarrow> BaseRenew_close (Suc d) s h True = Raised e t)
    \<and> call_close (Suc (Suc (Suc d))) s h = drv_close s h"
proof -
  have sup: "super_resolve (cls (objs s h)) BaseRenew ''close'' = None"
    using assms by (auto simp: resolve_handles)
  have a: "BaseRenew_close (Suc d) s h recursive = Raised (AttributeError ''close'') s"
    if "sub_obj (objs s h) = None \<or> recursive = False"
    using that sup by (auto simp: bind_Returned split: option.splits)
  have b: "BaseRenew_close (Suc d) s h True = Raised (AttributeError ''close'') t"
    if "sub_obj (objs s h) = Some r" "call_close d s r = Returned () t"
  proof -
    from that(2) have "cls (objs t h) = cls (objs s h)"
      by (rule cls_close(1))
    with sup that show ?thesis
      by (simp add: bind_Returned)
  qed
  have c: "BaseRenew_close (Suc d) s h True = Raised e t"
    if "sub_obj (objs s h) = Some r" "call_close d s r = Raised e t"
    using that by (simp add: bind_Raised)
  have m: "call_close (Suc (Suc (Suc d))) s h = drv_close s h"
    using assms
    by (auto simp: get_method_def resolve_handles fix_attrs_handles object_getattribute_def
        class_member_def bind_Returned)
  from sup a b c m show ?thesis
    by blast
qed

text \<open>
  A connection 0 with the successor 2, and a cursor 1 without one: \<open>BaseRenew.close\<close>
  closes the successor and raises on the first, raises at once on the second, and
  \<open>close()\<close> called on the cursor is the driver's.
\<close>

theorem BaseRenew_close_raises_AttributeError_witness:
  "(let s = store_of [a_connection False (Some 2), a_cursor False 0 None, a_connection False None];
        r = BaseRenew_close (Suc (Suc (Suc (Suc 0)))) s 0 True;
        r' = BaseRenew_close (Suc (Suc (Suc (Suc 0)))) s 1 True
    in raised r = Some (AttributeError ''close'')
     \<and> trace (final r) = [EvClose 2]
     \<and> raised r' = Some (AttributeError ''close'')
     \<and> trace (final r') = []
     \<and> call_close (Suc (Suc (Suc 0))) s 1 = drv_close s 1)"
  using BaseRenew_close_raises_AttributeError
    [where s = "store_of [a_connection False (Some 2), a_cursor False 0 None, a_connection False None]"
       and h = 0 and r = 2 and d = "Suc (Suc (Suc 0))" and recursive = True
       and t = "final (call_close (Suc (Suc (Suc 0)))
          (store_of [a_connection False (Some 2), a_cursor False 0 None, a_connection False None]) 2)"]
    BaseRenew_close_raises_AttributeError
    [where s = "store_of [a_connection False (Some 2), a_cursor False 0 None, a_connection False None]"
       and h = 1 and d = "Suc (Suc (Suc 0))" and recursive = True]
  by (simp add: ex_defs Let_def)

text \<open>
  Claim C9 as stated says that every call of \<open>close()\<close> on a \<open>RenewCursor\<close> raises
  \<open>AttributeError\<close>. The call on the cursor 1 returns, and the driver has closed the
  cursor.
\<close>

theorem cursor_close_call_returns:
  "(let r = call_close (Suc (Suc (Suc 0)))
              (store_of [a_connection False None, a_cursor False 0 None]) 1
    in raised r = None
     \<and> raised r \<noteq> Some (AttributeError ''close'')
     \<and> trace (final r) = [EvClose 1])"
  by (simp add: ex_defs Let_def)

subsection \<open>Where \<open>execute\<close> and \<open>close\<close> miss what they set out to do\<close>

text \<open>
  Claim C1 says that an error of the underlying \<open>execute\<close> that is neither closed
  condition reaches the caller as it is. An exception of another class does: the
  \<open>ProgrammingError\<close> below is raised unchanged after the one driver call. An
  \<open>InterfaceError\<close> with any other message does not: the test of line 176 is a string
  constant, so the cursor is closed and the caller gets \<open>NameError\<close>.
\<close>

theorem unrecognized_InterfaceError_not_reraised:
  "(let s = store_of [a_connection False None, a_cursor False 0 None];
        r = RenewCursor_execute (first_execute_raises (InterfaceError ''unknown''))
              (Suc (Suc (Suc (Suc 0)))) s 1 [VStr ''SELECT 1''] [];
        r' = RenewCursor_execute
              (first_execute_raises (DriverError ''ProgrammingError'' ''syntax error''))
              (Suc (Suc (Suc (Suc 0)))) s 1 [VStr ''SELECT 1''] []
    in raised r = Some (NameError ''logging'')
     \<and> trace (final r) = [EvExecute 1 [VStr ''SELECT 1''] [], EvClose 1]
     \<and> d_closed (objs (final r) 1) = True
     \<and> raised r' = Some (DriverError ''ProgrammingError'' ''syntax error'')
     \<and> trace (final r') = [EvExecute 1 [VStr ''SELECT 1''] []])"
  by (simp add: ex_defs Let_def)

text \<open>
  Claim C2 says that \<open>execute\<close> on a cursor whose connection reports closed builds one
  connection and one cursor and succeeds. It raises \<open>NameError\<close> at line 167 instead:
  the driver is never called, no successor is set, and the cursor still reports the old
  connection 0. The renewal alone, on the same store, does what the claim says: it
  connects (object 2), makes the cursor (object 3), and the cursor reports connection 2.
\<close>

theorem closed_connection_execute_raises:
  "(let s = store_of [a_connection True None, a_cursor False 0 None];
        r = RenewCursor_execute ok_driver (Suc (Suc (Suc (Suc 0)))) s 1 [VStr ''SELECT 1''] [];
        r' = solve_conn_curs ok_driver (Suc (Suc (Suc (Suc (Suc (Suc 0)))))) s 1 1
    in raised r = Some (NameError ''logging'')
     \<and> trace (final r) = []
     \<and> sub_obj (objs (final r) 1) = None
     \<and> py_getattr (Suc (Suc (Suc (Suc 0)))) (final r) 1 ''connection'' = Inr (VRef 0)
     \<and> raised r' = None
     \<and> trace (final r') =
         [EvConnect RetryConnection [VStr ''dbname=test''] [] 2,
          EvCursor 2 [] [(''cursor_factory'', VClass RenewCursor)] 3]
     \<and> py_getattr (Suc (Suc (Suc (Suc 0)))) (final r') 1 ''connection'' = Inr (VRef 2))"
  by (simp add: ex_defs Let_def py_new_def RetryConnection_init_def RenewCursor_init_def
      BaseRenew_init_def drv_connection_init_def drv_cursor_init_def drv_cursor_def setdefault_def)

text \<open>
  Claim C3 says that on \<open>InterfaceError("connection already closed")\<close> the connection is
  closed, the cursor renewed and the query retried once. The branch of line 181 is never
  taken: the cursor 1 is closed, not the connection 0, and line 179 raises \<open>NameError\<close>
  before any renewal or retry.
\<close>

theorem closed_connection_error_not_healed:
  "(let s = store_of [a_connection False None, a_cursor False 0 None];
        r = RenewCursor_execute
              (first_execute_raises (InterfaceError ''connection already closed''))
              (Suc (Suc (Suc (Suc 0)))) s 1 [VStr ''SELECT 1''] []
    in raised r = Some (NameError ''logging'')
     \<and> trace (final r) = [EvExecute 1 [VStr ''SELECT 1''] [], EvClose 1]
     \<and> d_closed (objs (final r) 0) = False
     \<and> d_closed (objs (final r) 1) = True
     \<and> sub_obj (objs (final r) 1) = None)"
  by (simp add: ex_defs Let_def)

text \<open>
  Claim C4 says that on \<open>InterfaceError("cursor already closed")\<close> the cursor closes
  itself, is renewed, and the query is retried once. The cursor is closed, then line 179
  raises \<open>NameError\<close>: no successor is set and the driver is not called again.
\<close>

theorem closed_cursor_error_not_healed:
  "(let s = store_of [a_connection False None, a_cursor False 0 None];
        r = RenewCursor_execute (first_execute_raises (InterfaceError ''cursor already closed''))
              (Suc (Suc (Suc (Suc 0)))) s 1 [VStr ''SELECT 1''] []
    in raised r = Some (NameError ''logging'')
     \<and> trace (final r) = [EvExecute 1 [VStr ''SELECT 1''] [], EvClose 1]
     \<and> d_closed (objs (final r) 1) = True
     \<and> sub_obj (objs (final r) 1) = None)"
  by (simp add: ex_defs Let_def)

text \<open>
  Claim C6 says that \<open>close()\<close> on a connection with a successor closes the successor
  and then the connection. On the connection 0 with the successor 2, \<open>close()\<close> is the
  driver's and closes 0 only; \<open>BaseRenew.close\<close>, called directly, closes 2, raises
  \<open>AttributeError\<close> and leaves 0 open.
\<close>

theorem connection_close_skips_successor:
  "(let s = store_of [a_connection False (Some 2), a_cursor False 0 None, a_connection False None];
        r = call_close (Suc (Suc (Suc 0))) s 0;
        r' = BaseRenew_close (Suc (Suc (Suc (Suc 0)))) s 0 True
    in raised r = None
     \<and> trace (final r) = [EvClose 0]
     \<and> d_closed (objs (final r) 2) = False
     \<and> raised r' = Some (AttributeError ''close'')
     \<and> trace (final r') = [EvClose 2]
     \<and> d_closed (objs (final r') 0) = False)"
  by (simp add: ex_defs Let_def)

text \<open>
  Claim C8 says that each of the two pre-checks of \<open>execute\<close> runs
  \<open>solve_conn_curs(self)\<close>. With connection and cursor both closed, and with the cursor
  alone closed, the call ends at the \<open>logging.debug\<close> of the first check that holds:
  the driver is never called and no successor is set.
\<close>

theorem closed_cursor_and_connection_no_renewal:
  "(let r = RenewCursor_execute ok_driver (Suc (Suc (Suc (Suc 0))))
              (store_of [a_connection True None, a_cursor True 0 None]) 1 [VStr ''SELECT 1''] [];
        r' = RenewCursor_execute ok_driver (Suc (Suc (Suc (Suc 0))))
              (store_of [a_connection False None, a_cursor True 0 None]) 1 [VStr ''SELECT 1''] []
    in raised r = Some (NameError ''logging'')
     \<and> trace (final r) = []
     \<and> sub_obj (objs (final r) 1) = None
     \<and> raised r' = Some (NameError ''logging'')
     \<and> trace (final r') = []
     \<and> sub_obj (objs (final r') 1) = None)"
  by (simp add: ex_defs Let_def)

end
